theory Spec2Isabelle
  imports Main "HOL-Library.Word"
begin

section \<open>The date-triggered action selector of \<^verbatim>\<open>time_bomb.c\<close>\<close>

text \<open>
  The program reads the clock with \<^verbatim>\<open>time(NULL)\<close>, decomposes the value with
  \<^verbatim>\<open>localtime\<close>, compares three fields of the decomposition with a hard-coded date
  and prints one of two string literals. The C library is not part of the repository:
  the clock and the decomposition are taken from a host, the standard streams and
  everything else a process can change form the world the program runs in.
\<close>

subsection \<open>Data\<close>

text \<open>C's \<^verbatim>\<open>int\<close>: 32 bits, read as two's complement by \<^const>\<open>sint\<close>.\<close>

type_synonym c_int = "32 word"

text \<open>\<^verbatim>\<open>struct tm\<close>, the nine members the C standard gives it.\<close>

record tm =
  tm_sec :: c_int
  tm_min :: c_int
  tm_hour :: c_int
  tm_mday :: c_int
  tm_mon :: c_int
  tm_year :: c_int
  tm_wday :: c_int
  tm_yday :: c_int
  tm_isdst :: c_int

text \<open>
  The host, for a type \<open>'t\<close> of \<^verbatim>\<open>time_t\<close> values (below a word of the
  platform's width): \<open>time\<close> is the value \<^verbatim>\<open>time(NULL)\<close> returns; it is
  \<^verbatim>\<open>(time_t)(-1)\<close> when the calendar time is not available. \<open>localtime\<close> is the
  decomposition in the process's time zone; \<open>None\<close> is the null pointer that
  \<^verbatim>\<open>localtime\<close> returns when it cannot decompose its argument.
\<close>

record 't host =
  time :: "'t"
  localtime :: "'t \<Rightarrow> tm option"

text \<open>
  The world a run can change: the bytes written to the two standard streams, the
  contents of the file system and the messages sent to the network. The extension of
  the record stands for any further state.
\<close>

record world =
  stdout :: string
  stderr :: string
  files :: "(string \<times> string) list"
  network :: "string list"

text \<open>
  The ways a run leaves defined behaviour: reading a member through a null pointer, and
  a \<^verbatim>\<open>printf\<close> format with a conversion but no argument for it.
\<close>

datatype fault = NullDeref | BadFormat

subsection \<open>The two string literals\<close>

text \<open>
  The literal of \<^verbatim>\<open>launch_nuke\<close> starts with the four bytes of U+1F525 in UTF-8 and,
  like the other one, ends with a newline.
\<close>

definition nuke_literal :: string where
  "nuke_literal =
     [CHR 0xF0, CHR 0x9F, CHR 0x94, CHR 0xA5]
       @ '' Nuke Launched! (Malicious logic triggered)'' @ [CHR 0x0A]"

definition normal_literal :: string where
  "normal_literal = ''System running normally.'' @ [CHR 0x0A]"

subsection \<open>Output\<close>

text \<open>
  What \<^verbatim>\<open>printf\<close> writes for a format when the call has no further argument: the
  bytes of the format, \<^verbatim>\<open>%%\<close> as one \<^verbatim>\<open>%\<close>; any other conversion would read an
  argument that is not there.
\<close>

fun format :: "string \<Rightarrow> string option" where
  "format [] = Some []"
| "format [c] = (if c = CHR ''%'' then None else Some [c])"
| "format (c # d # cs) =
     (if c = CHR ''%''
      then (if d = CHR ''%'' then map_option ((#) d) (format cs) else None)
      else map_option ((#) c) (format (d # cs)))"

definition printf :: "string \<Rightarrow> 'a world_scheme \<Rightarrow> fault + 'a world_scheme" where
  "printf fmt w =
     (case format fmt of
        None \<Rightarrow> Inl BadFormat
      | Some s \<Rightarrow> Inr (w\<lparr>stdout := stdout w @ s\<rparr>))"

subsection \<open>The program\<close>

definition launch_nuke :: "'a world_scheme \<Rightarrow> fault + 'a world_scheme" where
  "launch_nuke w = printf nuke_literal w"

text \<open>
  \<^verbatim>\<open>main\<close>: the result is the exit status and the world it leaves, or the fault. The
  members of \<open>t\<close> are read without a test for the null pointer. The addition
  \<^verbatim>\<open>t->tm_year + 1900\<close> is the 32-bit one; where the sum does not fit it wraps around
  here. The value \<^verbatim>\<open>printf\<close> returns is not used.
\<close>

definition main :: "'w::len word host \<Rightarrow> 'a world_scheme \<Rightarrow> fault + (c_int \<times> 'a world_scheme)" where
  "main h w =
     (let now = time h;
          t = localtime h now
      in case t of
           None \<Rightarrow> Inl NullDeref
         | Some t \<Rightarrow>
             (case (if tm_year t + 1900 = 2038 \<and> tm_mon t = 0 \<and> tm_mday t = 19
                    then launch_nuke w
                    else printf normal_literal w) of
                Inl f \<Rightarrow> Inl f
              | Inr w' \<Rightarrow> Inr (0, w')))"

subsection \<open>The calendar date of a decomposition\<close>

text \<open>
  The date as the specification names it: \<^verbatim>\<open>tm_year\<close> counts years since 1900,
  \<^verbatim>\<open>tm_mon\<close> months since January, \<^verbatim>\<open>tm_mday\<close> is the day of the month. Year,
  month (January is 1) and day are unbounded integers here; the trigger date is
  19 January 2038.
\<close>

definition local_year :: "tm \<Rightarrow> int" where
  "local_year t = sint (tm_year t) + 1900"

definition local_month :: "tm \<Rightarrow> int" where
  "local_month t = sint (tm_mon t) + 1"

definition local_day :: "tm \<Rightarrow> int" where
  "local_day t = sint (tm_mday t)"

definition trigger_date :: "tm \<Rightarrow> bool" where
  "trigger_date t \<longleftrightarrow> local_year t = 2038 \<and> local_month t = 1 \<and> local_day t = 19"

text \<open>A line of text: bytes that end with a newline and hold no other one.\<close>

definition one_line :: "string \<Rightarrow> bool" where
  "one_line s \<longleftrightarrow> s \<noteq> [] \<and> last s = CHR 0x0A \<and> CHR 0x0A \<notin> set (butlast s)"

subsection \<open>Sample hosts\<close>

text \<open>
  \<open>calendar y m d hh mm ss wd yd\<close> is the \<^verbatim>\<open>struct tm\<close> of the date \<open>y\<close>-\<open>m\<close>-\<open>d\<close>,
  \<open>hh\<close>:\<open>mm\<close>:\<open>ss\<close>, on weekday \<open>wd\<close> (Sunday is 0) and day \<open>yd\<close> of the year, without
  daylight saving time.
\<close>

definition calendar :: "int \<Rightarrow> int \<Rightarrow> int \<Rightarrow> int \<Rightarrow> int \<Rightarrow> int \<Rightarrow> int \<Rightarrow> int \<Rightarrow> tm" where
  "calendar y m d hh mm ss wd yd =
     \<lparr>tm_sec = word_of_int ss, tm_min = word_of_int mm, tm_hour = word_of_int hh,
      tm_mday = word_of_int d, tm_mon = word_of_int (m - 1), tm_year = word_of_int (y - 1900),
      tm_wday = word_of_int wd, tm_yday = word_of_int yd, tm_isdst = 0\<rparr>"

text \<open>
  What \<^verbatim>\<open>localtime\<close> gives on a host with a 64-bit \<^verbatim>\<open>time_t\<close> in the time zone UTC,
  at a few instants (seconds since 1970-01-01 00:00:00 UTC); this sample decomposes no
  other instant.
\<close>

definition utc_sample :: "64 word \<Rightarrow> tm option" where
  "utc_sample n =
     (if n = 2147483647 then Some (calendar 2038 1 19 3 14 7 2 18)
      else if n = 2147558399 then Some (calendar 2038 1 19 23 59 59 2 18)
      else if n = 2147558400 then Some (calendar 2038 1 20 0 0 0 3 19)
      else if n = 2147472000 then Some (calendar 2038 1 19 0 0 0 2 18)
      else if n = 2147471999 then Some (calendar 2038 1 18 23 59 59 1 17)
      else if n = 2115979200 then Some (calendar 2037 1 19 12 0 0 1 18)
      else if n = - 1 then Some (calendar 1969 12 31 23 59 59 3 364)
      else None)"

definition initial_world :: world where
  "initial_world = \<lparr>stdout = [], stderr = [], files = [], network = []\<rparr>"

text \<open>A world in which every part already holds something.\<close>

definition busy_world :: world where
  "busy_world =
     \<lparr>stdout = ''boot'' @ [CHR 0x0A], stderr = ''warning'' @ [CHR 0x0A],
      files = [(''/var/log/qtrace.log'', ''started'')], network = [''hello'']\<rparr>"

section \<open>Properties\<close>

subsection \<open>The literals and the test\<close>

lemma format_nuke: "format nuke_literal = Some nuke_literal"
  by (simp add: nuke_literal_def)

lemma format_normal: "format normal_literal = Some normal_literal"
  by (simp add: normal_literal_def)

lemma literals_differ: "nuke_literal \<noteq> normal_literal"
  by (simp add: nuke_literal_def normal_literal_def)

lemma one_line_nuke: "one_line nuke_literal"
  by (simp add: one_line_def nuke_literal_def)

lemma one_line_normal: "one_line normal_literal"
  by (simp add: one_line_def normal_literal_def)

text \<open>
  The 32-bit comparison of \<^verbatim>\<open>main\<close> holds exactly when the year, as an unbounded
  integer, is 2038: a wrapped sum is never 2038 by accident.
\<close>

lemma year_test: "(y + 1900 = (2038 :: c_int)) \<longleftrightarrow> sint y + 1900 = 2038"
proof -
  have "(y + 1900 = 2038) \<longleftrightarrow> (y + 1900 = 138 + 1900)" by simp
  also have "\<dots> \<longleftrightarrow> y = 138" by (simp only: add_right_cancel)
  also have "\<dots> \<longleftrightarrow> sint y = sint (138 :: c_int)" by (auto intro: signed_word_eqI)
  also have "\<dots> \<longleftrightarrow> sint y + 1900 = 2038" by simp
  finally show ?thesis .
qed

lemma trigger_test:
  "(tm_year t + 1900 = 2038 \<and> tm_mon t = 0 \<and> tm_mday t = 19) \<longleftrightarrow> trigger_date t"
proof -
  have m: "tm_mon t = 0 \<longleftrightarrow> sint (tm_mon t) + 1 = 1"
    by (auto intro: signed_word_eqI)
  have d: "tm_mday t = 19 \<longleftrightarrow> sint (tm_mday t) = sint (19 :: c_int)"
    by (auto intro: signed_word_eqI)
  show ?thesis
    unfolding trigger_date_def local_year_def local_month_def local_day_def
    using m d by (simp add: year_test)
qed

subsection \<open>The two outcomes of a run\<close>

lemma main_decomposed:
  assumes "localtime h (time h) = Some t"
  shows "main h w =
    Inr (0, w\<lparr>stdout := stdout w @ (if trigger_date t then nuke_literal else normal_literal)\<rparr>)"
proof (cases "trigger_date t")
  case True
  then have "tm_year t + 1900 = 2038 \<and> tm_mon t = 0 \<and> tm_mday t = 19"
    using trigger_test [of t] by blast
  with True assms show ?thesis
    by (simp add: main_def launch_nuke_def printf_def format_nuke)
next
  case False
  then have "\<not> (tm_year t + 1900 = 2038 \<and> tm_mon t = 0 \<and> tm_mday t = 19)"
    using trigger_test [of t] by blast
  with False assms show ?thesis
    by (auto simp: main_def printf_def format_normal)
qed

lemma main_null:
  assumes "localtime h (time h) = None"
  shows "main h w = Inl NullDeref"
  using assms by (simp add: main_def)

subsection \<open>The sample hosts\<close>

lemma sample_y2k38: "utc_sample 2147483647 = Some (calendar 2038 1 19 3 14 7 2 18)"
  by (simp add: utc_sample_def)

lemma sample_midnight: "utc_sample 2147472000 = Some (calendar 2038 1 19 0 0 0 2 18)"
  by (simp add: utc_sample_def)

lemma sample_last_second: "utc_sample 2147558399 = Some (calendar 2038 1 19 23 59 59 2 18)"
  by (simp add: utc_sample_def)

lemma sample_next_day: "utc_sample 2147558400 = Some (calendar 2038 1 20 0 0 0 3 19)"
  by (simp add: utc_sample_def)

lemma sample_eve: "utc_sample 2147471999 = Some (calendar 2038 1 18 23 59 59 1 17)"
  by (simp add: utc_sample_def)

lemma sample_failed_clock: "utc_sample (- 1) = Some (calendar 1969 12 31 23 59 59 3 364)"
  by (simp add: utc_sample_def)

lemma sample_undecomposed: "utc_sample 9223372036854775807 = None"
  by (simp add: utc_sample_def)

lemma y2k38_date:
  "local_year (calendar 2038 1 19 3 14 7 2 18) = 2038"
  "local_month (calendar 2038 1 19 3 14 7 2 18) = 1"
  "local_day (calendar 2038 1 19 3 14 7 2 18) = 19"
  by (simp_all add: calendar_def local_year_def local_month_def local_day_def)

lemma midnight_date:
  "local_year (calendar 2038 1 19 0 0 0 2 18) = 2038"
  "local_month (calendar 2038 1 19 0 0 0 2 18) = 1"
  "local_day (calendar 2038 1 19 0 0 0 2 18) = 19"
  by (simp_all add: calendar_def local_year_def local_month_def local_day_def)

lemma calendar_date:
  "local_year (calendar 2038 1 18 23 59 59 1 17) = 2038"
  "local_month (calendar 2038 1 18 23 59 59 1 17) = 1"
  "local_day (calendar 2038 1 18 23 59 59 1 17) = 18"
  "local_year (calendar 2038 1 19 23 59 59 2 18) = 2038"
  "local_month (calendar 2038 1 19 23 59 59 2 18) = 1"
  "local_day (calendar 2038 1 19 23 59 59 2 18) = 19"
  "local_year (calendar 2038 1 20 0 0 0 3 19) = 2038"
  "local_month (calendar 2038 1 20 0 0 0 3 19) = 1"
  "local_day (calendar 2038 1 20 0 0 0 3 19) = 20"
  "local_year (calendar 1969 12 31 23 59 59 3 364) = 1969"
  "local_month (calendar 1969 12 31 23 59 59 3 364) = 12"
  "local_day (calendar 1969 12 31 23 59 59 3 364) = 31"
  by (simp_all add: calendar_def local_year_def local_month_def local_day_def)

lemma calendar_clock:
  "tm_hour (calendar y m d hh mm ss wd yd) = word_of_int hh"
  "tm_min (calendar y m d hh mm ss wd yd) = word_of_int mm"
  "tm_sec (calendar y m d hh mm ss wd yd) = word_of_int ss"
  by (simp_all add: calendar_def)

subsection \<open>The claims\<close>

text \<open>
  C1, as the program has it. For every instant that \<^verbatim>\<open>localtime\<close> decomposes:
  \<^verbatim>\<open>main\<close> decomposes the instant it reads from the clock and, with the year, month
  and day of the decomposition, writes the literal of \<^verbatim>\<open>launch_nuke\<close> when the date is
  19 January 2038 and the literal of the other branch otherwise, and returns 0. The two
  literals differ, so exactly one of the two branches has run.
\<close>

theorem main_selects_by_date:
  assumes "localtime h (time h) = Some t"
  shows "main h w =
      Inr (0, w\<lparr>stdout := stdout w @
        (if local_year t = 2038 \<and> local_month t = 1 \<and> local_day t = 19
         then nuke_literal else normal_literal)\<rparr>)
    \<and> nuke_literal \<noteq> normal_literal"
  using main_decomposed [OF assms, of w] literals_differ
  by (simp add: trigger_date_def)

theorem main_selects_by_date_witness:
  "main \<lparr>time = 2147483647, localtime = utc_sample\<rparr> initial_world =
     Inr (0, initial_world\<lparr>stdout := nuke_literal\<rparr>)"
  using main_selects_by_date [of "\<lparr>time = 2147483647, localtime = utc_sample\<rparr>"
      "calendar 2038 1 19 3 14 7 2 18" initial_world]
  by (simp add: sample_y2k38 y2k38_date initial_world_def)

text \<open>
  Not every instant is one that \<^verbatim>\<open>localtime\<close> decomposes. At the largest 64-bit
  \<^verbatim>\<open>time_t\<close> the year does not fit \<^verbatim>\<open>tm_year\<close> and \<^verbatim>\<open>localtime\<close> returns the null
  pointer: the run is the null dereference, and neither branch is taken.
\<close>

theorem undecomposed_instant_counterexample:
  "main \<lparr>time = 9223372036854775807, localtime = utc_sample\<rparr> initial_world = Inl NullDeref"
  using main_null [of "\<lparr>time = 9223372036854775807, localtime = utc_sample\<rparr>" initial_world]
  by (simp add: sample_undecomposed)

text \<open>
  C2, as the program has it. A failed clock read is not detected: \<^verbatim>\<open>main\<close> does not
  compare the value of \<^verbatim>\<open>time\<close> with \<^verbatim>\<open>(time_t)(-1)\<close>, it decomposes it like any
  other instant. When \<^verbatim>\<open>localtime\<close> decomposes it, the run writes the line that the
  decomposed date selects, leaves standard error as it was and returns 0.
\<close>

theorem clock_failure_not_detected:
  assumes "time h = - 1" and "localtime h (- 1) = Some t"
  shows "main h w =
      Inr (0, w\<lparr>stdout := stdout w @
        (if local_year t = 2038 \<and> local_month t = 1 \<and> local_day t = 19
         then nuke_literal else normal_literal)\<rparr>)"
proof -
  from assms have "localtime h (time h) = Some t" by simp
  from main_decomposed [OF this, of w] show ?thesis
    by (simp add: trigger_date_def)
qed

theorem clock_failure_not_detected_witness:
  "main \<lparr>time = - 1, localtime = utc_sample\<rparr> (initial_world\<lparr>stderr := ''boot''\<rparr>) =
     Inr (0, initial_world\<lparr>stdout := normal_literal, stderr := ''boot''\<rparr>)"
  using clock_failure_not_detected [of "\<lparr>time = - 1, localtime = utc_sample\<rparr>"
      "calendar 1969 12 31 23 59 59 3 364" "initial_world\<lparr>stderr := ''boot''\<rparr>"]
  by (simp add: sample_failed_clock calendar_date initial_world_def)

text \<open>
  On a host in the time zone UTC whose clock read fails, the run ends with status 0, the
  line of the default branch on standard output and nothing on standard error.
\<close>

theorem clock_failure_counterexample:
  "main \<lparr>time = - 1, localtime = utc_sample\<rparr> initial_world =
     Inr (0, \<lparr>stdout = normal_literal, stderr = [], files = [], network = []\<rparr>)"
  using main_decomposed [of "\<lparr>time = - 1, localtime = utc_sample\<rparr>"
      "calendar 1969 12 31 23 59 59 3 364" initial_world]
  by (simp add: sample_failed_clock calendar_date trigger_date_def initial_world_def)

text \<open>
  C3. When the date of the decomposition is not 19 January 2038, the run writes the line
  of the default branch, nothing else, and not the line of \<^verbatim>\<open>launch_nuke\<close>.
\<close>

theorem other_dates_default:
  assumes "localtime h (time h) = Some t"
    and "(local_year t, local_month t, local_day t) \<noteq> (2038, 1, 19)"
  shows "main h w = Inr (0, w\<lparr>stdout := stdout w @ normal_literal\<rparr>)
    \<and> main h w \<noteq> Inr (0, w\<lparr>stdout := stdout w @ nuke_literal\<rparr>)"
proof -
  from assms(2) have "\<not> trigger_date t"
    by (simp add: trigger_date_def)
  then have run: "main h w = Inr (0, w\<lparr>stdout := stdout w @ normal_literal\<rparr>)"
    using main_decomposed [OF assms(1), of w] by simp
  have "stdout (w\<lparr>stdout := stdout w @ normal_literal\<rparr>)
      \<noteq> stdout (w\<lparr>stdout := stdout w @ nuke_literal\<rparr>)"
    using literals_differ by simp
  then have "w\<lparr>stdout := stdout w @ normal_literal\<rparr> \<noteq> w\<lparr>stdout := stdout w @ nuke_literal\<rparr>"
    by metis
  with run show ?thesis by simp
qed

theorem other_dates_default_witness:
  "main \<lparr>time = 2147471999, localtime = utc_sample\<rparr> initial_world =
     Inr (0, initial_world\<lparr>stdout := normal_literal\<rparr>)"
  using other_dates_default [of "\<lparr>time = 2147471999, localtime = utc_sample\<rparr>"
      "calendar 2038 1 18 23 59 59 1 17" initial_world]
  by (simp add: sample_eve calendar_date initial_world_def)

text \<open>
  C4. When the date of the decomposition is 19 January 2038, the run writes the line of
  \<^verbatim>\<open>launch_nuke\<close>, which is what \<^verbatim>\<open>launch_nuke\<close> writes, nothing else, and not the
  line of the default branch.
\<close>

theorem trigger_date_alternate:
  assumes "localtime h (time h) = Some t"
    and "local_year t = 2038" and "local_month t = 1" and "local_day t = 19"
  shows "main h w = Inr (0, w\<lparr>stdout := stdout w @ nuke_literal\<rparr>)
    \<and> launch_nuke w = Inr (w\<lparr>stdout := stdout w @ nuke_literal\<rparr>)
    \<and> main h w \<noteq> Inr (0, w\<lparr>stdout := stdout w @ normal_literal\<rparr>)"
proof -
  from assms(2-4) have "trigger_date t"
    by (simp add: trigger_date_def)
  then have run: "main h w = Inr (0, w\<lparr>stdout := stdout w @ nuke_literal\<rparr>)"
    using main_decomposed [OF assms(1), of w] by simp
  have nuke: "launch_nuke w = Inr (w\<lparr>stdout := stdout w @ nuke_literal\<rparr>)"
    by (simp add: launch_nuke_def printf_def format_nuke)
  have "stdout (w\<lparr>stdout := stdout w @ nuke_literal\<rparr>)
      \<noteq> stdout (w\<lparr>stdout := stdout w @ normal_literal\<rparr>)"
    using literals_differ by simp
  then have "w\<lparr>stdout := stdout w @ nuke_literal\<rparr> \<noteq> w\<lparr>stdout := stdout w @ normal_literal\<rparr>"
    by metis
  with run nuke show ?thesis by simp
qed

theorem trigger_date_alternate_witness:
  "main \<lparr>time = 2147472000, localtime = utc_sample\<rparr> initial_world =
     Inr (0, initial_world\<lparr>stdout := nuke_literal\<rparr>)"
  using trigger_date_alternate [of "\<lparr>time = 2147472000, localtime = utc_sample\<rparr>"
      "calendar 2038 1 19 0 0 0 2 18" initial_world]
  by (simp add: utc_sample_def calendar_def local_year_def local_month_def local_day_def
      initial_world_def)

text \<open>
  C5. Two runs whose decompositions agree on year, month and day end alike, whatever the
  hour, minute and second are. At 23:59:59 on 19 January 2038 the run writes the line of
  \<^verbatim>\<open>launch_nuke\<close>, at 00:00:00 on 20 January 2038 the line of the default branch.
\<close>

theorem branch_ignores_time_of_day:
  fixes h1 :: "'u::len word host" and h2 :: "'v::len word host"
  assumes "localtime h1 (time h1) = Some t1" and "localtime h2 (time h2) = Some t2"
  shows "(local_year t1 = local_year t2 \<and> local_month t1 = local_month t2
        \<and> local_day t1 = local_day t2 \<longrightarrow> main h1 w = main h2 w)
    \<and> (local_year t1 = 2038 \<and> local_month t1 = 1 \<and> local_day t1 = 19
        \<and> tm_hour t1 = 23 \<and> tm_min t1 = 59 \<and> tm_sec t1 = 59 \<longrightarrow>
        main h1 w = Inr (0, w\<lparr>stdout := stdout w @ nuke_literal\<rparr>))
    \<and> (local_year t2 = 2038 \<and> local_month t2 = 1 \<and> local_day t2 = 20
        \<and> tm_hour t2 = 0 \<and> tm_min t2 = 0 \<and> tm_sec t2 = 0 \<longrightarrow>
        main h2 w = Inr (0, w\<lparr>stdout := stdout w @ normal_literal\<rparr>))"
proof -
  note run1 = main_decomposed [OF assms(1), of w]
  note run2 = main_decomposed [OF assms(2), of w]
  have same: "main h1 w = main h2 w"
    if "local_year t1 = local_year t2" "local_month t1 = local_month t2"
      "local_day t1 = local_day t2"
  proof -
    from that have "trigger_date t1 = trigger_date t2"
      by (simp add: trigger_date_def)
    with run1 run2 show ?thesis by simp
  qed
  have last_second: "main h1 w = Inr (0, w\<lparr>stdout := stdout w @ nuke_literal\<rparr>)"
    if "local_year t1 = 2038" "local_month t1 = 1" "local_day t1 = 19"
  proof -
    from that have "trigger_date t1" by (simp add: trigger_date_def)
    with run1 show ?thesis by simp
  qed
  have next_day: "main h2 w = Inr (0, w\<lparr>stdout := stdout w @ normal_literal\<rparr>)"
    if "local_day t2 = 20"
  proof -
    from that have "\<not> trigger_date t2" by (simp add: trigger_date_def)
    with run2 show ?thesis by simp
  qed
  from same last_second next_day show ?thesis by blast
qed

theorem branch_ignores_time_of_day_witness:
  "main \<lparr>time = 2147558399, localtime = utc_sample\<rparr> initial_world =
     main \<lparr>time = 2147472000, localtime = utc_sample\<rparr> initial_world
   \<and> main \<lparr>time = 2147558399, localtime = utc_sample\<rparr> initial_world =
     Inr (0, initial_world\<lparr>stdout := nuke_literal\<rparr>)
   \<and> main \<lparr>time = 2147558400, localtime = utc_sample\<rparr> initial_world =
     Inr (0, initial_world\<lparr>stdout := normal_literal\<rparr>)"
  using
    branch_ignores_time_of_day [of "\<lparr>time = 2147558399, localtime = utc_sample\<rparr>"
      "calendar 2038 1 19 23 59 59 2 18" "\<lparr>time = 2147472000, localtime = utc_sample\<rparr>"
      "calendar 2038 1 19 0 0 0 2 18" initial_world]
    branch_ignores_time_of_day [of "\<lparr>time = 2147558399, localtime = utc_sample\<rparr>"
      "calendar 2038 1 19 23 59 59 2 18" "\<lparr>time = 2147558400, localtime = utc_sample\<rparr>"
      "calendar 2038 1 20 0 0 0 3 19" initial_world]
  by (simp add: sample_last_second sample_midnight sample_next_day calendar_date midnight_date
      calendar_clock initial_world_def)

text \<open>
  C7. A run on a host with the same clock value and the same decomposition of it repeats
  the first run: started in the world the first run left, it returns the same status and
  writes the bytes the first run wrote; when the first run faults, so does the other, in
  any world.
\<close>

theorem repeated_runs_agree:
  assumes "time h' = time h" and "localtime h' (time h) = localtime h (time h)"
  shows "(main h w = Inr (c, w') \<longrightarrow>
        main h' w' = Inr (c, w'\<lparr>stdout := stdout w' @ drop (length (stdout w)) (stdout w')\<rparr>))
    \<and> (main h w = Inl f \<longrightarrow> main h' v = Inl f)"
proof (cases "localtime h (time h)")
  case None
  with assms have "localtime h' (time h') = None" by simp
  then have "main h' v = Inl NullDeref" by (rule main_null)
  with None show ?thesis by (simp add: main_null)
next
  case (Some t)
  with assms have again: "localtime h' (time h') = Some t" by simp
  show ?thesis
    using main_decomposed [OF Some, of w] main_decomposed [OF again, of w']
    by auto
qed

theorem repeated_runs_agree_witness:
  "main \<lparr>time = 2147483647, localtime = utc_sample\<rparr> (initial_world\<lparr>stdout := nuke_literal\<rparr>) =
     Inr (0, initial_world\<lparr>stdout := nuke_literal @ nuke_literal\<rparr>)
   \<and> main \<lparr>time = 9223372036854775807, localtime = utc_sample\<rparr>
       (initial_world\<lparr>stdout := nuke_literal\<rparr>) = Inl NullDeref"
  using
    repeated_runs_agree [of "\<lparr>time = 2147483647, localtime = utc_sample\<rparr>"
      "\<lparr>time = 2147483647, localtime = utc_sample\<rparr>" initial_world 0
      "initial_world\<lparr>stdout := nuke_literal\<rparr>"]
    repeated_runs_agree [of "\<lparr>time = 9223372036854775807, localtime = utc_sample\<rparr>"
      "\<lparr>time = 9223372036854775807, localtime = utc_sample\<rparr>" initial_world _ _ NullDeref
      "initial_world\<lparr>stdout := nuke_literal\<rparr>"]
    main_decomposed [of "\<lparr>time = 2147483647, localtime = utc_sample\<rparr>"
      "calendar 2038 1 19 3 14 7 2 18" initial_world]
    main_null [of "\<lparr>time = 9223372036854775807, localtime = utc_sample\<rparr>" initial_world]
  by (simp add: sample_y2k38 sample_undecomposed y2k38_date trigger_date_def initial_world_def)

text \<open>
  C8. A run that returns, returns 0; and a run returns whenever \<^verbatim>\<open>localtime\<close>
  decomposes the instant, whichever branch it takes.
\<close>

theorem exit_status_zero:
  "(main h w = Inr (c, w') \<longrightarrow> c = 0)
   \<and> (localtime h (time h) \<noteq> None \<longrightarrow> (\<exists>v. main h w = Inr (0, v)))"
proof (cases "localtime h (time h)")
  case None
  then show ?thesis by (simp add: main_null)
next
  case (Some t)
  then show ?thesis using main_decomposed [OF Some, of w] by simp
qed

theorem exit_status_zero_witness:
  "(\<exists>v. main \<lparr>time = 2147483647, localtime = utc_sample\<rparr> initial_world = Inr (0, v))
   \<and> (\<exists>v. main \<lparr>time = 2147471999, localtime = utc_sample\<rparr> initial_world = Inr (0, v))"
  using
    exit_status_zero [of "\<lparr>time = 2147483647, localtime = utc_sample\<rparr>" initial_world]
    exit_status_zero [of "\<lparr>time = 2147471999, localtime = utc_sample\<rparr>" initial_world]
  by (simp add: sample_y2k38 sample_eve)

text \<open>
  C9, as the program has it. For every invocation in which \<^verbatim>\<open>localtime\<close> decomposes
  the instant, and with a \<^verbatim>\<open>printf\<close> that delivers the bytes it is given: the run
  returns and the world it leaves is the one it started in with one line added to standard
  output; standard error, the files, the network and every other part of the world are as
  they were.
\<close>

theorem only_effect_is_one_line:
  assumes "localtime h (time h) = Some t"
  shows "\<exists>c w' line. main h w = Inr (c, w') \<and> one_line line
    \<and> w' = w\<lparr>stdout := stdout w @ line\<rparr>
    \<and> stderr w' = stderr w \<and> files w' = files w \<and> network w' = network w
    \<and> world.more w' = world.more w"
proof -
  let ?line = "if trigger_date t then nuke_literal else normal_literal"
  have "one_line ?line"
    by (simp add: one_line_nuke one_line_normal)
  moreover have "main h w = Inr (0, w\<lparr>stdout := stdout w @ ?line\<rparr>)"
    by (rule main_decomposed [OF assms])
  ultimately show ?thesis
    by (intro exI [of _ 0] exI [of _ "w\<lparr>stdout := stdout w @ ?line\<rparr>"] exI [of _ ?line]) simp
qed

theorem only_effect_is_one_line_witness:
  "\<exists>c w' line.
     main \<lparr>time = 2147471999, localtime = utc_sample\<rparr> busy_world = Inr (c, w')
     \<and> one_line line
     \<and> stdout w' = ''boot'' @ [CHR 0x0A] @ line
     \<and> stderr w' = ''warning'' @ [CHR 0x0A]
     \<and> files w' = [(''/var/log/qtrace.log'', ''started'')]
     \<and> network w' = [''hello'']"
proof -
  let ?h = "\<lparr>time = 2147471999, localtime = utc_sample\<rparr>"
  have "localtime ?h (time ?h) = Some (calendar 2038 1 18 23 59 59 1 17)"
    by (simp add: sample_eve)
  from only_effect_is_one_line [OF this, of busy_world]
  obtain c w' line where run: "main ?h busy_world = Inr (c, w')"
    and line: "one_line line"
    and frame: "w' = busy_world\<lparr>stdout := stdout busy_world @ line\<rparr>"
    by blast
  from frame have "stdout w' = ''boot'' @ [CHR 0x0A] @ line"
    and "stderr w' = ''warning'' @ [CHR 0x0A]"
    and "files w' = [(''/var/log/qtrace.log'', ''started'')]"
    and "network w' = [''hello'']"
    by (simp_all add: busy_world_def)
  with run line show ?thesis by blast
qed

text \<open>
  Not every invocation is such a run. In a world that already holds output, on a host
  whose \<^verbatim>\<open>localtime\<close> returns the null pointer, the run is the null dereference: it
  writes no line and returns no status.
\<close>

theorem no_line_counterexample:
  "main \<lparr>time = 9223372036854775807, localtime = utc_sample\<rparr> busy_world = Inl NullDeref"
  using main_null [of "\<lparr>time = 9223372036854775807, localtime = utc_sample\<rparr>" busy_world]
  by (simp add: sample_undecomposed)

text \<open>
  C10. \<^verbatim>\<open>main\<close> reads \<^verbatim>\<open>t->tm_year\<close>, \<^verbatim>\<open>t->tm_mon\<close> and \<^verbatim>\<open>t->tm_mday\<close> without a
  test of \<open>t\<close>: when \<^verbatim>\<open>localtime\<close> returns the null pointer the run is the null
  dereference, in every world, and when it returns a decomposition the run does not fault.
\<close>

theorem null_decomposition_unguarded:
  "(localtime h (time h) = None \<longrightarrow> main h w = Inl NullDeref)
   \<and> (localtime h (time h) \<noteq> None \<longrightarrow> \<not> isl (main h w))"
proof (cases "localtime h (time h)")
  case None
  then show ?thesis by (simp add: main_null)
next
  case (Some t)
  then show ?thesis using main_decomposed [OF Some, of w] by simp
qed

theorem null_decomposition_unguarded_witness:
  "main \<lparr>time = 9223372036854775807, localtime = utc_sample\<rparr> initial_world = Inl NullDeref
   \<and> \<not> isl (main \<lparr>time = 2147483647, localtime = utc_sample\<rparr> initial_world)"
  using
    null_decomposition_unguarded
      [of "\<lparr>time = 9223372036854775807, localtime = utc_sample\<rparr>" initial_world]
    null_decomposition_unguarded
      [of "\<lparr>time = 2147483647, localtime = utc_sample\<rparr>" initial_world]
  by (simp add: sample_y2k38 sample_undecomposed)

end
